theory Spec2Isabelle
  imports Main
begin

section \<open>Data model of \<^verbatim>\<open>atomic_agents/agents/base_agent.py\<close>\<close>

text \<open>
  Python objects that are shared by reference and mutated in place (the memory objects)
  live in an explicit store: an address is a natural number, \<open>cells\<close> maps every address
  to the object stored there and \<open>nxt\<close> is the next free address, so that the addresses
  below \<open>nxt\<close> are the objects that exist.
\<close>

type_synonym addr = nat

text \<open>A chat message is the dictionary \<^verbatim>\<open>{"role": ..., "content": ...}\<close>.\<close>

record message =
  role :: string
  content :: string

text \<open>
  Modelled from the spec: the class \<^verbatim>\<open>AgentMemory\<close> of
  \<^verbatim>\<open>atomic_agents.lib.components.agent_memory\<close> is imported by the source file and is not
  part of it. The spec gives its consumed interface: an ordered, role-tagged, append-only
  message log with \<^verbatim>\<open>add_message(role, content)\<close>, \<^verbatim>\<open>get_history()\<close> and
  \<^verbatim>\<open>copy()\<close>, the last one returning an independent structural snapshot.
\<close>

record AgentMemory =
  history :: "message list"

text \<open>
  A schema is a class object (\<^verbatim>\<open>Type[BaseModel]\<close>): the two classes the source file
  declares, or any other model class, named by its class name.
\<close>

datatype schema = BaseAgentInputSchema | BaseAgentOutputSchema | Schema string

text \<open>
  Exceptions: the \<^verbatim>\<open>KeyError\<close> the agent raises itself, with its message; the validation
  error of the configuration object; and an exception raised by a collaborator, carried as
  it was raised.
\<close>

datatype 'e error = KeyError string | ValidationError string | Raised 'e

text \<open>
  The trace records, in program order, the effects of the statements executed: the
  assignment to \<^verbatim>\<open>self.current_user_input\<close>, every \<^verbatim>\<open>add_message\<close> on a memory object
  and every call of \<^verbatim>\<open>client.chat.completions.create\<close> with its three keyword arguments.
\<close>

datatype 'io event =
    Assign_current_user_input 'io
  | Add_message addr string string
  | Create string "message list" schema

record ('io, 'c) world =
  cells :: "addr \<Rightarrow> AgentMemory"
  nxt :: addr
  client_st :: 'c
  trace :: "'io event list"

text \<open>
  The completion client is an external collaborator (\<^verbatim>\<open>instructor\<close>). A call of
  \<^verbatim>\<open>client.chat.completions.create(model=, messages=, response_model=)\<close> reads the
  client's own state, returns a response or raises, and leaves a new client state.
\<close>

type_synonym ('io, 'c, 'e) client =
  "'c \<Rightarrow> string \<Rightarrow> message list \<Rightarrow> schema \<Rightarrow> ('e + 'io) \<times> 'c"

text \<open>
  Modelled from the spec: the class \<^verbatim>\<open>SystemPromptGenerator\<close> of
  \<^verbatim>\<open>atomic_agents.lib.components.system_prompt_generator\<close> is imported by the source file
  and is not part of it. The spec gives its consumed interface: \<^verbatim>\<open>generate_prompt()\<close>
  produces a string from the generator's current state, and the generator exposes a mutable
  \<^verbatim>\<open>context_providers\<close> mapping of name to provider instance (the source reaches it as
  \<^verbatim>\<open>system_prompt_info.context_providers\<close>). The rest of the generator's state is
  \<open>prompt_info\<close>; \<^verbatim>\<open>generate_prompt\<close> itself is a parameter \<open>gen\<close> of the operations
  that call it.
\<close>

record ('p, 'g) SystemPromptGenerator =
  context_providers :: "string \<rightharpoonup> 'p"
  prompt_info :: 'g

text \<open>
  \<^verbatim>\<open>BaseAgentConfig\<close> (lines 57-68). The fields carry the prefix \<open>cfg_\<close>, since the agent
  has attributes of the same names.
\<close>

record ('io, 'c, 'e, 'p, 'g) BaseAgentConfig =
  cfg_client :: "('io, 'c, 'e) client"
  cfg_model :: string
  cfg_memory :: "addr option"
  cfg_system_prompt_generator :: "('p, 'g) SystemPromptGenerator option"
  cfg_input_schema :: "schema option"
  cfg_output_schema :: "schema option"

text \<open>The attributes of a \<^verbatim>\<open>BaseAgent\<close> instance (lines 98-105).\<close>

record ('io, 'c, 'e, 'p, 'g) BaseAgent =
  input_schema :: schema
  output_schema :: schema
  client :: "('io, 'c, 'e) client"
  model :: string
  memory :: addr
  system_prompt_generator :: "('p, 'g) SystemPromptGenerator"
  initial_memory :: addr
  current_user_input :: "'io option"

section \<open>The collaborators\<close>

text \<open>
  Modelled from the spec: the three operations of the missing \<^verbatim>\<open>AgentMemory\<close> class and
  its constructor. \<^verbatim>\<open>add_message\<close> appends one message to the history of the object at
  the address, \<^verbatim>\<open>get_history\<close> reads the ordered history, \<^verbatim>\<open>copy\<close> allocates a new
  object with the same history, and \<^verbatim>\<open>AgentMemory()\<close> allocates an empty one.
\<close>

definition add_message ::
  "addr \<Rightarrow> string \<Rightarrow> string \<Rightarrow> ('io, 'c) world \<Rightarrow> ('io, 'c) world" where
  "add_message a r c w =
     w\<lparr>cells := (cells w)(a := \<lparr>history = history (cells w a) @ [\<lparr>role = r, content = c\<rparr>]\<rparr>),
       trace := trace w @ [Add_message a r c]\<rparr>"

definition get_history :: "addr \<Rightarrow> ('io, 'c) world \<Rightarrow> message list" where
  "get_history a w = history (cells w a)"

definition copy :: "addr \<Rightarrow> ('io, 'c) world \<Rightarrow> addr \<times> ('io, 'c) world" where
  "copy a w = (nxt w, w\<lparr>cells := (cells w)(nxt w := cells w a), nxt := Suc (nxt w)\<rparr>)"

definition AgentMemory_new :: "('io, 'c) world \<Rightarrow> addr \<times> ('io, 'c) world" where
  "AgentMemory_new w =
     (nxt w, w\<lparr>cells := (cells w)(nxt w := \<lparr>history = []\<rparr>), nxt := Suc (nxt w)\<rparr>)"

text \<open>
  The call of the completion client: the client function of the agent is applied to the
  client's state; an exception of the client is carried unchanged.
\<close>

definition create ::
  "('io, 'c, 'e) client \<Rightarrow> string \<Rightarrow> message list \<Rightarrow> schema \<Rightarrow> ('io, 'c) world \<Rightarrow>
     ('e error + 'io) \<times> ('io, 'c) world" where
  "create cl m msgs sch w =
     (case cl (client_st w) m msgs sch of
        (res, c') \<Rightarrow>
          ((case res of Inl e \<Rightarrow> Inl (Raised e) | Inr r \<Rightarrow> Inr r),
           w\<lparr>client_st := c', trace := trace w @ [Create m msgs sch]\<rparr>))"

section \<open>Message schemas and configuration\<close>

text \<open>
  \<^verbatim>\<open>BaseAgentIO.__str__\<close> (lines 16-17) returns \<^verbatim>\<open>self.model_dump_json()\<close>, a method of
  the validation library: the parameter \<open>dump\<close>.
\<close>

definition str :: "('io \<Rightarrow> string) \<Rightarrow> 'io \<Rightarrow> string" where
  "str dump x = dump x"

text \<open>
  Constructing a \<^verbatim>\<open>BaseAgentConfig\<close> from keyword arguments, each of which may be left
  out: \<^verbatim>\<open>client\<close> is declared \<^verbatim>\<open>Field(...)\<close> and so required, \<^verbatim>\<open>model\<close> has the
  default \<^verbatim>\<open>"gpt-3.5-turbo"\<close>, the other four have the default \<^verbatim>\<open>None\<close>.
\<close>

definition BaseAgentConfig_init ::
  "('io, 'c, 'e) client option \<Rightarrow> string option \<Rightarrow> addr option \<Rightarrow>
   ('p, 'g) SystemPromptGenerator option \<Rightarrow> schema option \<Rightarrow> schema option \<Rightarrow>
     'e error + ('io, 'c, 'e, 'p, 'g) BaseAgentConfig" where
  "BaseAgentConfig_init cl m mem spg ins outs =
     (case cl of
        None \<Rightarrow> Inl (ValidationError ''client'')
      | Some c \<Rightarrow>
          Inr \<lparr>cfg_client = c,
               cfg_model = (case m of None \<Rightarrow> ''gpt-3.5-turbo'' | Some s \<Rightarrow> s),
               cfg_memory = mem,
               cfg_system_prompt_generator = spg,
               cfg_input_schema = ins,
               cfg_output_schema = outs\<rparr>)"

section \<open>\<^verbatim>\<open>BaseAgent\<close>\<close>

text \<open>
  \<^verbatim>\<open>__init__\<close> (lines 91-105). \<^verbatim>\<open>x or y\<close> on an optional field takes \<open>y\<close> when the field
  is \<^verbatim>\<open>None\<close>: a class object, a memory object and a generator object are all truthy.
  \<open>dspg\<close> is the generator that \<^verbatim>\<open>SystemPromptGenerator()\<close> builds. The class attributes
  of lines 88-89 are the defaults of the two schemas.
\<close>

definition BaseAgent_init ::
  "('p, 'g) SystemPromptGenerator \<Rightarrow> ('io, 'c, 'e, 'p, 'g) BaseAgentConfig \<Rightarrow> ('io, 'c) world \<Rightarrow>
     ('io, 'c, 'e, 'p, 'g) BaseAgent \<times> ('io, 'c) world" where
  "BaseAgent_init dspg config w =
     (let ins = (case cfg_input_schema config of None \<Rightarrow> BaseAgentInputSchema | Some s \<Rightarrow> s);
          outs = (case cfg_output_schema config of None \<Rightarrow> BaseAgentOutputSchema | Some s \<Rightarrow> s);
          (mem, w1) = (case cfg_memory config of None \<Rightarrow> AgentMemory_new w | Some a \<Rightarrow> (a, w));
          spg = (case cfg_system_prompt_generator config of None \<Rightarrow> dspg | Some g \<Rightarrow> g);
          (init_mem, w2) = copy mem w1
      in (\<lparr>input_schema = ins,
           output_schema = outs,
           client = cfg_client config,
           model = cfg_model config,
           memory = mem,
           system_prompt_generator = spg,
           initial_memory = init_mem,
           current_user_input = None\<rparr>, w2))"

text \<open>\<^verbatim>\<open>reset_memory\<close> (lines 107-111).\<close>

definition reset_memory ::
  "('io, 'c, 'e, 'p, 'g) BaseAgent \<Rightarrow> ('io, 'c) world \<Rightarrow>
     ('e error + unit) \<times> ('io, 'c, 'e, 'p, 'g) BaseAgent \<times> ('io, 'c) world" where
  "reset_memory self w =
     (case copy (initial_memory self) w of
        (m, w') \<Rightarrow> (Inr (), self\<lparr>memory := m\<rparr>, w'))"

text \<open>\<^verbatim>\<open>get_response\<close> (lines 113-134).\<close>

definition get_response ::
  "(('p, 'g) SystemPromptGenerator \<Rightarrow> string) \<Rightarrow> schema option \<Rightarrow>
   ('io, 'c, 'e, 'p, 'g) BaseAgent \<Rightarrow> ('io, 'c) world \<Rightarrow>
     ('e error + 'io) \<times> ('io, 'c, 'e, 'p, 'g) BaseAgent \<times> ('io, 'c) world" where
  "get_response gen response_model self w =
     (let response_model' =
            (case response_model of None \<Rightarrow> output_schema self | Some s \<Rightarrow> s);
          messages =
            [\<lparr>role = ''system'', content = gen (system_prompt_generator self)\<rparr>]
              @ get_history (memory self) w
      in case create (client self) (model self) messages response_model' w of
           (response, w') \<Rightarrow> (response, self, w'))"

text \<open>
  \<^verbatim>\<open>run\<close> (lines 136-153). The argument is \<^verbatim>\<open>None\<close> or an object. Line 146,
  \<^verbatim>\<open>if user_input:\<close>, tests the truth value of the argument, not whether it is \<^verbatim>\<open>None\<close>:
  \<^verbatim>\<open>None\<close> is false, and an object has the truth value that its class gives it, the result
  of \<^verbatim>\<open>__bool__\<close>, or else whether \<^verbatim>\<open>__len__\<close> is not zero, or else true. The parameter
  \<open>truthy\<close> is that truth value of an object; for a class that defines neither method,
  as \<^verbatim>\<open>BaseAgentIO\<close> and the two schemas of the source file, it is constantly true. An
  exception of \<^verbatim>\<open>get_response\<close> leaves \<^verbatim>\<open>run\<close> after the effects of lines 147-148.
\<close>

definition run ::
  "(('p, 'g) SystemPromptGenerator \<Rightarrow> string) \<Rightarrow> ('io \<Rightarrow> string) \<Rightarrow> ('io \<Rightarrow> bool) \<Rightarrow>
   'io option \<Rightarrow> ('io, 'c, 'e, 'p, 'g) BaseAgent \<Rightarrow> ('io, 'c) world \<Rightarrow>
     ('e error + 'io) \<times> ('io, 'c, 'e, 'p, 'g) BaseAgent \<times> ('io, 'c) world" where
  "run gen dump truthy user_input self w =
     (let (self1, w1) =
            (case user_input of
               None \<Rightarrow> (self, w)
             | Some u \<Rightarrow>
                 if truthy u then
                   (let self' = self\<lparr>current_user_input := Some u\<rparr>;
                        w' = w\<lparr>trace := trace w @ [Assign_current_user_input u]\<rparr>
                    in (self', add_message (memory self') ''user'' (str dump u) w'))
                 else (self, w))
      in case get_response gen (Some (output_schema self1)) self1 w1 of
           (Inl e, self2, w2) \<Rightarrow> (Inl e, self2, w2)
         | (Inr response, self2, w2) \<Rightarrow>
             (Inr response, self2,
              add_message (memory self2) ''assistant'' (str dump response) w2))"

text \<open>The message of the \<^verbatim>\<open>KeyError\<close> of lines 169 and 192.\<close>

definition not_found :: "string \<Rightarrow> string" where
  "not_found provider_name =
     ''Context provider '' @ [CHR 0x27] @ provider_name @ [CHR 0x27] @ '' not found.''"

text \<open>\<^verbatim>\<open>get_context_provider\<close> (lines 155-170).\<close>

definition get_context_provider ::
  "string \<Rightarrow> ('io, 'c, 'e, 'p, 'g) BaseAgent \<Rightarrow> ('io, 'c) world \<Rightarrow>
     ('e error + 'p) \<times> ('io, 'c, 'e, 'p, 'g) BaseAgent \<times> ('io, 'c) world" where
  "get_context_provider provider_name self w =
     (case context_providers (system_prompt_generator self) provider_name of
        None \<Rightarrow> (Inl (KeyError (not_found provider_name)), self, w)
      | Some p \<Rightarrow> (Inr p, self, w))"

text \<open>\<^verbatim>\<open>register_context_provider\<close> (lines 172-180).\<close>

definition register_context_provider ::
  "string \<Rightarrow> 'p \<Rightarrow> ('io, 'c, 'e, 'p, 'g) BaseAgent \<Rightarrow> ('io, 'c) world \<Rightarrow>
     ('e error + unit) \<times> ('io, 'c, 'e, 'p, 'g) BaseAgent \<times> ('io, 'c) world" where
  "register_context_provider provider_name provider self w =
     (Inr (),
      self\<lparr>system_prompt_generator :=
        (system_prompt_generator self)
          \<lparr>context_providers :=
             (context_providers (system_prompt_generator self))(provider_name \<mapsto> provider)\<rparr>\<rparr>,
      w)"

text \<open>\<^verbatim>\<open>unregister_context_provider\<close> (lines 182-192).\<close>

definition unregister_context_provider ::
  "string \<Rightarrow> ('io, 'c, 'e, 'p, 'g) BaseAgent \<Rightarrow> ('io, 'c) world \<Rightarrow>
     ('e error + unit) \<times> ('io, 'c, 'e, 'p, 'g) BaseAgent \<times> ('io, 'c) world" where
  "unregister_context_provider provider_name self w =
     (case context_providers (system_prompt_generator self) provider_name of
        Some p \<Rightarrow>
          (Inr (),
           self\<lparr>system_prompt_generator :=
             (system_prompt_generator self)
               \<lparr>context_providers :=
                  (context_providers (system_prompt_generator self))(provider_name := None)\<rparr>\<rparr>,
           w)
      | None \<Rightarrow> (Inl (KeyError (not_found provider_name)), self, w))"

section \<open>Sequences of calls on one agent\<close>

text \<open>
  What a caller can do with an agent: call one of its six methods, or mutate the active
  memory directly (\<^verbatim>\<open>agent.memory.add_message(role, content)\<close>). A call that raises
  leaves the state it had reached; the caller goes on from there.
\<close>

datatype ('io, 'p) call =
    Run "'io option"
  | Reset_memory
  | Get_response "schema option"
  | Get_context_provider string
  | Register_context_provider string 'p
  | Unregister_context_provider string
  | Memory_add_message string string

fun exec ::
  "(('p, 'g) SystemPromptGenerator \<Rightarrow> string) \<Rightarrow> ('io \<Rightarrow> string) \<Rightarrow> ('io \<Rightarrow> bool) \<Rightarrow>
   ('io, 'p) call \<Rightarrow> ('io, 'c, 'e, 'p, 'g) BaseAgent \<times> ('io, 'c) world \<Rightarrow>
     ('io, 'c, 'e, 'p, 'g) BaseAgent \<times> ('io, 'c) world" where
  "exec gen dump truthy (Run user_input) (self, w) =
     snd (run gen dump truthy user_input self w)"
| "exec gen dump truthy Reset_memory (self, w) = snd (reset_memory self w)"
| "exec gen dump truthy (Get_response rm) (self, w) = snd (get_response gen rm self w)"
| "exec gen dump truthy (Get_context_provider n) (self, w) =
     snd (get_context_provider n self w)"
| "exec gen dump truthy (Register_context_provider n p) (self, w) =
     snd (register_context_provider n p self w)"
| "exec gen dump truthy (Unregister_context_provider n) (self, w) =
     snd (unregister_context_provider n self w)"
| "exec gen dump truthy (Memory_add_message r c) (self, w) =
     (self, add_message (memory self) r c w)"

fun execs ::
  "(('p, 'g) SystemPromptGenerator \<Rightarrow> string) \<Rightarrow> ('io \<Rightarrow> string) \<Rightarrow> ('io \<Rightarrow> bool) \<Rightarrow>
   ('io, 'p) call list \<Rightarrow> ('io, 'c, 'e, 'p, 'g) BaseAgent \<times> ('io, 'c) world \<Rightarrow>
     ('io, 'c, 'e, 'p, 'g) BaseAgent \<times> ('io, 'c) world" where
  "execs gen dump truthy [] s = s"
| "execs gen dump truthy (c # cs) s = execs gen dump truthy cs (exec gen dump truthy c s)"

text \<open>The model argument of a completion call, for the events that are one.\<close>

fun create_model :: "'io event \<Rightarrow> string option" where
  "create_model (Create m msgs sch) = Some m"
| "create_model (Assign_current_user_input u) = None"
| "create_model (Add_message a r c) = None"


section \<open>The example scenario\<close>

text \<open>
  The scenario of the spec's section 8: an agent with empty memory over a stub client that
  answers \<^verbatim>\<open>pong\<close> to everything, and next to it a client that always raises. The
  envelopes are their \<^verbatim>\<open>chat_message\<close> strings, the client's state counts its calls,
  and the agent is the one that \<open>BaseAgent_init\<close> builds in a store with no objects.
  \<open>plain_truth\<close> is the truth value of an envelope of the schemas of the source file, which
  define neither \<^verbatim>\<open>__bool__\<close> nor \<^verbatim>\<open>__len__\<close>. \<open>len_truth\<close> is the truth value of an
  envelope of a subclass that defines \<^verbatim>\<open>__len__\<close> as the length of its \<^verbatim>\<open>chat_message\<close>:
  \<^verbatim>\<open>class Msg(BaseAgentInputSchema): def __len__(self): return len(self.chat_message)\<close>.
\<close>

definition plain_truth :: "string \<Rightarrow> bool" where
  "plain_truth u = True"

definition len_truth :: "string \<Rightarrow> bool" where
  "len_truth u \<longleftrightarrow> length u \<noteq> 0"

definition dump_chat :: "string \<Rightarrow> string" where
  \<open>dump_chat s = ''{"chat_message":"'' @ s @ ''"}''\<close>

definition prompt_text :: "(string, string) SystemPromptGenerator \<Rightarrow> string" where
  "prompt_text g = prompt_info g"

definition default_generator :: "(string, string) SystemPromptGenerator" where
  "default_generator = \<lparr>context_providers = Map.empty, prompt_info = ''Be helpful.''\<rparr>"

definition pong_client :: "(string, nat, string) client" where
  "pong_client c m msgs sch = (Inr ''pong'', Suc c)"

definition failing_client :: "(string, nat, string) client" where
  "failing_client c m msgs sch = (Inl ''timeout'', Suc c)"

definition empty_world :: "(string, nat) world" where
  "empty_world = \<lparr>cells = (\<lambda>a. \<lparr>history = []\<rparr>), nxt = 0, client_st = 0, trace = []\<rparr>"

definition example_agent ::
  "(string, nat, string) client \<Rightarrow> (string, nat, string, string, string) BaseAgent" where
  "example_agent cl =
     \<lparr>input_schema = BaseAgentInputSchema, output_schema = BaseAgentOutputSchema,
      client = cl, model = ''gpt-3.5-turbo'', memory = 0,
      system_prompt_generator = default_generator, initial_memory = 1,
      current_user_input = None\<rparr>"

definition example_world :: "(string, nat) world" where
  "example_world = \<lparr>cells = (\<lambda>a. \<lparr>history = []\<rparr>), nxt = 2, client_st = 0, trace = []\<rparr>"

section \<open>Auxiliary facts\<close>

lemmas op_defs =
  run_def get_response_def create_def get_history_def add_message_def reset_memory_def copy_def
  get_context_provider_def register_context_provider_def unregister_context_provider_def

lemmas example_defs =
  dump_chat_def prompt_text_def default_generator_def pong_client_def failing_client_def
  empty_world_def example_agent_def example_world_def plain_truth_def len_truth_def

section \<open>The turn\<close>

text \<open>
  A turn with an input that is true: \<open>run\<close> is called with the input \<open>u\<close>, whose truth
  value is true, and the client answers the call it receives with the response \<open>r\<close>. Then
  \<open>run\<close> returns \<open>r\<close>; the agent is as before but for the tracked input, so the active
  memory is the same object; its history is the old history followed by exactly two
  messages, first the \<^verbatim>\<open>user\<close> message with content \<open>str u\<close>, then the \<^verbatim>\<open>assistant\<close>
  message with content \<open>str r\<close>. The effects of the call are, in this order: the
  assignment of the current input, the append of the user message, one call of the
  completion client (with the system message, the old history and the user message, and
  without the reply), and the append of the assistant message.
\<close>

lemma run_truthy_input:
  assumes "truthy u"
      and "fst (client self (client_st w) (model self)
              (\<lparr>role = ''system'', content = gen (system_prompt_generator self)\<rparr>
                 # get_history (memory self) w @ [\<lparr>role = ''user'', content = str dump u\<rparr>])
              (output_schema self)) = Inr r"
  shows "case run gen dump truthy (Some u) self w of (res, self', w') \<Rightarrow>
         res = Inr r \<and> self' = self\<lparr>current_user_input := Some u\<rparr> \<and>
         memory self' = memory self \<and>
         get_history (memory self') w' =
           get_history (memory self) w @
             [\<lparr>role = ''user'', content = str dump u\<rparr>,
              \<lparr>role = ''assistant'', content = str dump r\<rparr>] \<and>
         trace w' = trace w @
           [Assign_current_user_input u,
            Add_message (memory self) ''user'' (str dump u),
            Create (model self)
              (\<lparr>role = ''system'', content = gen (system_prompt_generator self)\<rparr>
                 # get_history (memory self) w @ [\<lparr>role = ''user'', content = str dump u\<rparr>])
              (output_schema self),
            Add_message (memory self) ''assistant'' (str dump r)]"
  using assms
  by (auto simp add: run_def get_response_def create_def get_history_def add_message_def Let_def
      split: prod.splits sum.splits)

text \<open>
  The example scenario: the turn with input \<^verbatim>\<open>ping\<close> returns \<^verbatim>\<open>pong\<close> and leaves exactly
  the two entries in memory.
\<close>

lemma run_truthy_input_example:
  "case run prompt_text dump_chat plain_truth (Some ''ping'') (example_agent pong_client)
          example_world of
     (res, self', w') \<Rightarrow>
       res = Inr ''pong'' \<and>
       get_history (memory self') w' =
         [\<lparr>role = ''user'', content = dump_chat ''ping''\<rparr>,
          \<lparr>role = ''assistant'', content = dump_chat ''pong''\<rparr>] \<and>
       trace w' =
         [Assign_current_user_input ''ping'',
          Add_message 0 ''user'' (dump_chat ''ping''),
          Create ''gpt-3.5-turbo''
            [\<lparr>role = ''system'', content = ''Be helpful.''\<rparr>,
             \<lparr>role = ''user'', content = dump_chat ''ping''\<rparr>] BaseAgentOutputSchema,
          Add_message 0 ''assistant'' (dump_chat ''pong'')]"
proof -
  have t: "plain_truth ''ping''" by (simp add: plain_truth_def)
  have h: "fst (client (example_agent pong_client) (client_st example_world)
              (model (example_agent pong_client))
              (\<lparr>role = ''system'',
                 content = prompt_text (system_prompt_generator (example_agent pong_client))\<rparr>
                 # get_history (memory (example_agent pong_client)) example_world
                 @ [\<lparr>role = ''user'', content = str dump_chat ''ping''\<rparr>])
              (output_schema (example_agent pong_client))) = Inr ''pong''"
    by (simp add: example_defs)
  from run_truthy_input [where self = "example_agent pong_client" and w = example_world
      and gen = prompt_text and dump = dump_chat and truthy = plain_truth
      and u = "''ping''" and r = "''pong''", OF t h]
  show ?thesis
    by (auto simp add: example_agent_def example_world_def default_generator_def prompt_text_def
        get_history_def str_def)
qed

text \<open>
  When the client raises during a turn with an input that is true, \<open>run\<close> raises the same
  exception; the user message is in memory by then and no assistant message follows it.
\<close>

lemma run_client_failure:
  assumes "truthy u"
      and "fst (client self (client_st w) (model self)
              (\<lparr>role = ''system'', content = gen (system_prompt_generator self)\<rparr>
                 # get_history (memory self) w @ [\<lparr>role = ''user'', content = str dump u\<rparr>])
              (output_schema self)) = Inl e"
  shows "case run gen dump truthy (Some u) self w of (res, self', w') \<Rightarrow>
           res = Inl (Raised e) \<and>
           get_history (memory self') w' =
             get_history (memory self) w @ [\<lparr>role = ''user'', content = str dump u\<rparr>]"
  using assms
  by (auto simp add: run_def get_response_def create_def get_history_def add_message_def Let_def
      split: prod.splits sum.splits)

text \<open>
  An input that is not \<^verbatim>\<open>None\<close> but false takes the branch of no input: the call does
  exactly what the call without input does.
\<close>

lemma run_falsy_input:
  "\<not> truthy u \<Longrightarrow> run gen dump truthy (Some u) self w = run gen dump truthy None self w"
  by (simp add: run_def)

text \<open>
  C1. A turn with an input that is given and false. The docstring of \<^verbatim>\<open>run\<close> (line 141)
  skips the user message when the input is not provided, and \<^verbatim>\<open>get_response\<close> tests its
  optional argument with \<^verbatim>\<open>is None\<close> (line 124); line 146 tests the truth value instead.
  So for the envelope with the empty \<^verbatim>\<open>chat_message\<close> of a schema whose \<^verbatim>\<open>__len__\<close> is the
  length of the message, passed to \<^verbatim>\<open>run\<close> on the example agent, no \<^verbatim>\<open>user\<close> message is
  appended: the turn returns \<^verbatim>\<open>pong\<close>, the memory holds the \<^verbatim>\<open>assistant\<close> message only,
  and the effects are the client call, with the system message alone, and one append.
\<close>

theorem run_input_not_appended:
  "case run prompt_text dump_chat len_truth (Some []) (example_agent pong_client)
          example_world of
     (res, self', w') \<Rightarrow>
       res = Inr ''pong'' \<and>
       get_history (memory self') w' =
         [\<lparr>role = ''assistant'', content = dump_chat ''pong''\<rparr>] \<and>
       trace w' =
         [Create ''gpt-3.5-turbo'' [\<lparr>role = ''system'', content = ''Be helpful.''\<rparr>]
            BaseAgentOutputSchema,
          Add_message 0 ''assistant'' (dump_chat ''pong'')]"
  by (simp add: op_defs example_defs str_def Let_def)

text \<open>
  C5. A turn without input: when the client answers the call with the response \<open>r\<close>,
  \<open>run\<close> called with \<^verbatim>\<open>None\<close> returns \<open>r\<close>, leaves the attributes of the agent as
  they were, and the history of the active memory is the old history followed by exactly
  one message, the \<^verbatim>\<open>assistant\<close> message with content \<open>str r\<close>; no \<^verbatim>\<open>user\<close> message is
  appended. The effects are the one client call and then the one append.
\<close>

theorem run_without_input:
  assumes "fst (client self (client_st w) (model self)
              (\<lparr>role = ''system'', content = gen (system_prompt_generator self)\<rparr>
                 # get_history (memory self) w) (output_schema self)) = Inr r"
  shows "case run gen dump truthy None self w of (res, self', w') \<Rightarrow>
         res = Inr r \<and> self' = self \<and>
         get_history (memory self') w' =
           get_history (memory self) w @ [\<lparr>role = ''assistant'', content = str dump r\<rparr>] \<and>
         trace w' = trace w @
           [Create (model self)
              (\<lparr>role = ''system'', content = gen (system_prompt_generator self)\<rparr>
                 # get_history (memory self) w)
              (output_schema self),
            Add_message (memory self) ''assistant'' (str dump r)]"
  using assms
  by (auto simp add: run_def get_response_def create_def get_history_def add_message_def Let_def
      split: prod.splits sum.splits)

theorem run_without_input_witness:
  "case run prompt_text dump_chat plain_truth None (example_agent pong_client) example_world of
     (res, self', w') \<Rightarrow>
       res = Inr ''pong'' \<and> self' = example_agent pong_client \<and>
       get_history (memory self') w' = [\<lparr>role = ''assistant'', content = dump_chat ''pong''\<rparr>] \<and>
       trace w' =
         [Create ''gpt-3.5-turbo'' [\<lparr>role = ''system'', content = ''Be helpful.''\<rparr>]
            BaseAgentOutputSchema,
          Add_message 0 ''assistant'' (dump_chat ''pong'')]"
proof -
  have h: "fst (client (example_agent pong_client) (client_st example_world)
              (model (example_agent pong_client))
              (\<lparr>role = ''system'',
                 content = prompt_text (system_prompt_generator (example_agent pong_client))\<rparr>
                 # get_history (memory (example_agent pong_client)) example_world)
              (output_schema (example_agent pong_client))) = Inr ''pong''"
    by (simp add: example_defs)
  from run_without_input [where self = "example_agent pong_client" and w = example_world
      and gen = prompt_text and dump = dump_chat and truthy = plain_truth
      and r = "''pong''", OF h] show ?thesis
    by (auto simp add: example_agent_def example_world_def default_generator_def prompt_text_def
        get_history_def str_def)
qed

text \<open>
  The tracked current input. It is \<^verbatim>\<open>None\<close> in the agent that \<open>BaseAgent_init\<close>
  returns. A call of \<open>run\<close> with an input \<open>u\<close> that is true leaves it \<open>Some u\<close>, whether
  the call returns or raises, and the assignment is the first effect of the call, directly
  followed by the append of the user message. A call of \<open>run\<close> with \<^verbatim>\<open>None\<close> leaves it as
  it was; so after a turn with such an input \<open>u\<close> and then a turn without input it is
  still \<open>Some u\<close>.
\<close>

lemma current_user_input_tracking:
  assumes "truthy u"
  shows "current_user_input (fst (BaseAgent_init dspg config w0)) = None \<and>
   current_user_input (fst (snd (run gen dump truthy (Some u) self w))) = Some u \<and>
   (\<exists>es. trace (snd (snd (run gen dump truthy (Some u) self w))) =
           trace w @ Assign_current_user_input u
             # Add_message (memory self) ''user'' (str dump u) # es) \<and>
   current_user_input (fst (snd (run gen dump truthy None self w))) = current_user_input self \<and>
   (case run gen dump truthy (Some u) self w of
      (res, self', w') \<Rightarrow>
        current_user_input (fst (snd (run gen dump truthy None self' w'))) = Some u)"
  using assms
  by (auto simp add: BaseAgent_init_def run_def get_response_def create_def get_history_def
        add_message_def Let_def
      split: prod.splits sum.splits option.splits)

text \<open>
  In the example: the input is tracked although the client raises, and a first turn
  without input leaves \<^verbatim>\<open>None\<close>.
\<close>

lemma current_user_input_tracking_example:
  "current_user_input (fst (snd (run prompt_text dump_chat plain_truth (Some ''ping'')
      (example_agent failing_client) example_world))) = Some ''ping'' \<and>
   fst (run prompt_text dump_chat plain_truth (Some ''ping'')
      (example_agent failing_client) example_world) = Inl (Raised ''timeout'') \<and>
   current_user_input (fst (snd (run prompt_text dump_chat plain_truth None
      (example_agent failing_client) example_world))) = None"
proof -
  have t: "plain_truth ''ping''" by (simp add: plain_truth_def)
  from current_user_input_tracking
    [where truthy = plain_truth and u = "''ping''" and dspg = default_generator
       and w0 = empty_world and gen = prompt_text and dump = dump_chat
       and self = "example_agent failing_client" and w = example_world, OF t]
  show ?thesis
    by (simp add: op_defs example_defs Let_def)
qed

text \<open>
  C10. The tracked current input, for an input that is given and false. Line 147 is
  under the truth test of line 146, so the envelope with the empty \<^verbatim>\<open>chat_message\<close> of
  a schema whose \<^verbatim>\<open>__len__\<close> is the length of the message is not recorded: on the example
  agent, \<open>run\<close> with that input leaves the tracked input \<^verbatim>\<open>None\<close>; and after a turn with
  the input \<^verbatim>\<open>ping\<close> of that schema, a turn with the empty one leaves the tracked input
  \<^verbatim>\<open>ping\<close>, the input of the turn before, and not the input of the turn just made.
\<close>

theorem current_user_input_not_set:
  "current_user_input (fst (snd (run prompt_text dump_chat len_truth (Some [])
      (example_agent pong_client) example_world))) = None \<and>
   (case run prompt_text dump_chat len_truth (Some ''ping'') (example_agent pong_client)
           example_world of
      (res, self', w') \<Rightarrow>
        current_user_input self' = Some ''ping'' \<and>
        current_user_input (fst (snd (run prompt_text dump_chat len_truth (Some []) self' w')))
          = Some ''ping'')"
  by (simp add: op_defs example_defs str_def Let_def)

section \<open>The completion call\<close>

text \<open>
  C3. \<open>get_response\<close> on any agent state: the message sequence is one \<^verbatim>\<open>system\<close> message
  whose content is the current output of the prompt generator, followed by the whole
  history of the active memory in order; the client is called once, with the agent's model,
  that sequence and the resolved schema (the argument, or the configured output schema when
  the argument is \<^verbatim>\<open>None\<close>); the result is what the client returned, and the agent's
  attributes and the memory objects are as before.
\<close>

theorem get_response_assembles:
  "get_response gen rm self w =
     (let messages = \<lparr>role = ''system'', content = gen (system_prompt_generator self)\<rparr>
                       # history (cells w (memory self));
          target = (case rm of None \<Rightarrow> output_schema self | Some s \<Rightarrow> s);
          (res, c') = client self (client_st w) (model self) messages target
      in ((case res of Inl e \<Rightarrow> Inl (Raised e) | Inr r \<Rightarrow> Inr r), self,
          w\<lparr>client_st := c', trace := trace w @ [Create (model self) messages target]\<rparr>))"
  by (simp add: get_response_def create_def get_history_def Let_def split: prod.splits)

text \<open>
  C4. A failure of the client during \<open>get_response\<close>: when the client raises \<open>e\<close> on the
  call, \<open>get_response\<close> raises that same \<open>e\<close>; the client was called exactly once (no
  retry, no fallback result); the agent's attributes are unchanged, and so are the store of
  memory objects, the history of the active memory, the history of the initial snapshot
  and the provider registry.
\<close>

theorem get_response_failure:
  assumes "client self (client_st w) (model self)
             (\<lparr>role = ''system'', content = gen (system_prompt_generator self)\<rparr>
                # history (cells w (memory self)))
             (case rm of None \<Rightarrow> output_schema self | Some s \<Rightarrow> s) = (Inl e, c')"
  shows "case get_response gen rm self w of (res, self', w') \<Rightarrow>
           res = Inl (Raised e) \<and> self' = self \<and> cells w' = cells w \<and> nxt w' = nxt w \<and>
           get_history (memory self') w' = get_history (memory self) w \<and>
           get_history (initial_memory self') w' = get_history (initial_memory self) w \<and>
           context_providers (system_prompt_generator self') =
             context_providers (system_prompt_generator self) \<and>
           trace w' = trace w @
             [Create (model self)
                (\<lparr>role = ''system'', content = gen (system_prompt_generator self)\<rparr>
                   # history (cells w (memory self)))
                (case rm of None \<Rightarrow> output_schema self | Some s \<Rightarrow> s)]"
  using assms
  by (simp add: get_response_def create_def get_history_def Let_def split: prod.splits)

theorem get_response_failure_witness:
  "case get_response prompt_text None (example_agent failing_client) example_world of
     (res, self', w') \<Rightarrow>
       res = Inl (Raised ''timeout'') \<and> self' = example_agent failing_client \<and>
       cells w' = cells example_world \<and> client_st w' = 1 \<and>
       trace w' = [Create ''gpt-3.5-turbo'' [\<lparr>role = ''system'', content = ''Be helpful.''\<rparr>]
                     BaseAgentOutputSchema]"
proof -
  have h: "client (example_agent failing_client) (client_st example_world)
             (model (example_agent failing_client))
             (\<lparr>role = ''system'',
                content = prompt_text (system_prompt_generator (example_agent failing_client))\<rparr>
                # history (cells example_world (memory (example_agent failing_client))))
             (case None of None \<Rightarrow> output_schema (example_agent failing_client) | Some s \<Rightarrow> s)
           = (Inl ''timeout'', 1)"
    by (simp add: example_defs)
  from get_response_failure [where self = "example_agent failing_client" and w = example_world
      and gen = prompt_text and rm = None and e = "''timeout''" and c' = 1, OF h]
  show ?thesis
    by (auto simp add: op_defs example_defs Let_def)
qed

text \<open>
  C6. The schema override: with an explicit schema \<open>sch\<close>, the client is called with
  \<open>sch\<close> as the target schema and the result is the client's result for \<open>sch\<close>, whatever
  the configured output schema of the agent is; with \<^verbatim>\<open>None\<close>, the client is called with
  the configured output schema.
\<close>

theorem get_response_schema:
  "trace (snd (snd (get_response gen (Some sch) self w))) =
     trace w @ [Create (model self)
                  (\<lparr>role = ''system'', content = gen (system_prompt_generator self)\<rparr>
                     # history (cells w (memory self))) sch] \<and>
   fst (get_response gen (Some sch) self w) =
     fst (create (client self) (model self)
            (\<lparr>role = ''system'', content = gen (system_prompt_generator self)\<rparr>
               # history (cells w (memory self))) sch w) \<and>
   trace (snd (snd (get_response gen None self w))) =
     trace w @ [Create (model self)
                  (\<lparr>role = ''system'', content = gen (system_prompt_generator self)\<rparr>
                     # history (cells w (memory self))) (output_schema self)] \<and>
   fst (get_response gen None self w) =
     fst (create (client self) (model self)
            (\<lparr>role = ''system'', content = gen (system_prompt_generator self)\<rparr>
               # history (cells w (memory self))) (output_schema self) w)"
  by (simp add: get_response_def create_def get_history_def Let_def split: prod.splits)

section \<open>The provider registry\<close>

text \<open>The message of the lookup error identifies the name: it determines it.\<close>

lemma not_found_inj: "not_found a = not_found b \<Longrightarrow> a = b"
  by (simp add: not_found_def)

text \<open>
  C7. Registration: for every name and provider, \<open>register_context_provider\<close> returns
  without an exception, whether or not the name was present; the registry afterwards is
  the old one with the name mapped to the new provider (a previous entry of that name is
  replaced, the other entries stay); and \<open>get_context_provider\<close> with that name then
  returns the new provider.
\<close>

theorem register_then_get:
  "case register_context_provider name p self w of (res, self', w') \<Rightarrow>
     res = Inr () \<and> w' = w \<and>
     context_providers (system_prompt_generator self') =
       (context_providers (system_prompt_generator self))(name \<mapsto> p) \<and>
     get_context_provider name self' w' = (Inr p, self', w')"
  by (simp add: register_context_provider_def get_context_provider_def)

text \<open>
  C8. Lookup and removal. For a name that is not in the registry, \<open>get_context_provider\<close>
  and \<open>unregister_context_provider\<close> both raise the \<^verbatim>\<open>KeyError\<close> whose message names it,
  and leave the agent (its registry included) and the store unchanged. For a name that is
  in the registry, both return: the lookup returns the registered provider and changes
  nothing, the removal deletes that entry and no other.
\<close>

theorem lookup_failure:
  "(context_providers (system_prompt_generator self) name = None \<longrightarrow>
      get_context_provider name self w = (Inl (KeyError (not_found name)), self, w) \<and>
      unregister_context_provider name self w = (Inl (KeyError (not_found name)), self, w)) \<and>
   (\<forall>p. context_providers (system_prompt_generator self) name = Some p \<longrightarrow>
      get_context_provider name self w = (Inr p, self, w) \<and>
      (case unregister_context_provider name self w of (res, self', w') \<Rightarrow>
         res = Inr () \<and> w' = w \<and>
         context_providers (system_prompt_generator self') =
           (context_providers (system_prompt_generator self))(name := None)))"
  by (simp add: get_context_provider_def unregister_context_provider_def)

text \<open>
  In the example: the registry of the example agent is empty, so \<^verbatim>\<open>time\<close> is not found;
  once registered, it is found and can be removed, after which it is not found again.
\<close>

theorem lookup_failure_witness:
  "fst (get_context_provider ''time'' (example_agent pong_client) example_world) =
     Inl (KeyError ''Context provider 'time' not found.'') \<and>
   fst (unregister_context_provider ''time'' (example_agent pong_client) example_world) =
     Inl (KeyError ''Context provider 'time' not found.'') \<and>
   (case register_context_provider ''time'' ''noon'' (example_agent pong_client) example_world of
      (res, self', w') \<Rightarrow>
        fst (get_context_provider ''time'' self' w') = Inr ''noon'' \<and>
        (case unregister_context_provider ''time'' self' w' of
           (res2, self2, w2) \<Rightarrow>
             res2 = Inr () \<and>
             fst (get_context_provider ''time'' self2 w2) =
               Inl (KeyError ''Context provider 'time' not found.'')))"
proof -
  have absent: "context_providers (system_prompt_generator (example_agent pong_client)) ''time''
                  = None"
    by (simp add: example_defs)
  obtain self' where
    reg: "register_context_provider ''time'' ''noon'' (example_agent pong_client) example_world
            = (Inr (), self', example_world)" and
    present: "context_providers (system_prompt_generator self') ''time'' = Some ''noon''"
    by (simp add: register_context_provider_def)
  note a = lookup_failure [of "example_agent pong_client" "''time''" example_world]
  note b = lookup_failure [of self' "''time''" example_world]
  from a absent have 1:
    "get_context_provider ''time'' (example_agent pong_client) example_world =
       (Inl (KeyError (not_found ''time'')), example_agent pong_client, example_world)"
    "unregister_context_provider ''time'' (example_agent pong_client) example_world =
       (Inl (KeyError (not_found ''time'')), example_agent pong_client, example_world)"
    by simp_all
  from b present have 2:
    "get_context_provider ''time'' self' example_world = (Inr ''noon'', self', example_world)"
    "case unregister_context_provider ''time'' self' example_world of (res, self2, w2) \<Rightarrow>
       res = Inr () \<and> w2 = example_world \<and>
       context_providers (system_prompt_generator self2) ''time'' = None"
    by (simp_all split: prod.splits)
  from 2(2) have 3:
    "case unregister_context_provider ''time'' self' example_world of (res, self2, w2) \<Rightarrow>
       res = Inr () \<and>
       fst (get_context_provider ''time'' self2 w2) = Inl (KeyError (not_found ''time''))"
    by (auto simp add: get_context_provider_def split: prod.splits)
  from 1 2(1) 3 reg show ?thesis
    by (simp add: not_found_def)
qed

section \<open>Construction, reset and sequences of calls\<close>

text \<open>The example agent is the agent that the constructors build from the stub client.\<close>

lemma example_agent_init:
  "BaseAgentConfig_init (Some cl) None None None None None = Inr config \<Longrightarrow>
   fst (BaseAgent_init default_generator config empty_world) = example_agent cl \<and>
   snd (BaseAgent_init default_generator config empty_world) = example_world"
  by (auto simp add: BaseAgentConfig_init_def BaseAgent_init_def AgentMemory_new_def copy_def
      example_defs Let_def fun_eq_iff)


lemma init_trace:
  "BaseAgent_init dspg config w = (self, w0) \<Longrightarrow>
     trace w0 = trace w \<and> model self = cfg_model config"
  by (auto simp add: BaseAgent_init_def AgentMemory_new_def copy_def Let_def
      split: option.splits prod.splits)




text \<open>
  Every call keeps the model of the agent, and only extends the trace, by events whose
  completion calls carry that model.
\<close>

lemma exec_trace:
  assumes "exec gen dump truthy c (self, w) = (self', w')"
  shows "model self' = model self \<and>
         (\<exists>es. trace w' = trace w @ es \<and>
               (\<forall>ev\<in>set es. create_model ev = None \<or> create_model ev = Some (model self)))"
  using assms
  by (cases c)
     (auto simp add: op_defs Let_def split: prod.splits sum.splits option.splits if_splits)

lemma execs_trace:
  assumes "execs gen dump truthy cs (self, w) = (self', w')"
  shows "model self' = model self \<and>
         (\<exists>es. trace w' = trace w @ es \<and>
               (\<forall>ev\<in>set es. create_model ev = None \<or> create_model ev = Some (model self)))"
  using assms
proof (induction cs arbitrary: self w)
  case Nil
  then show ?case by simp
next
  case (Cons c cs)
  obtain s1 w1 where step: "exec gen dump truthy c (self, w) = (s1, w1)"
    by (cases "exec gen dump truthy c (self, w)")
  from exec_trace [OF step] obtain es1 where
    m1: "model s1 = model self" and t1: "trace w1 = trace w @ es1" and
    e1: "\<forall>ev\<in>set es1. create_model ev = None \<or> create_model ev = Some (model self)"
    by blast
  from Cons.prems step have "execs gen dump truthy cs (s1, w1) = (self', w')" by simp
  from Cons.IH [OF this] obtain es2 where
    m2: "model self' = model s1" and t2: "trace w' = trace w1 @ es2" and
    e2: "\<forall>ev\<in>set es2. create_model ev = None \<or> create_model ev = Some (model s1)"
    by blast
  have "trace w' = trace w @ (es1 @ es2)" using t1 t2 by simp
  moreover have
    "\<forall>ev\<in>set (es1 @ es2). create_model ev = None \<or> create_model ev = Some (model self)"
    using e1 e2 m1 by auto
  ultimately show ?case using m1 m2 by metis
qed



text \<open>
  C9. The default model. A configuration constructed without a model has the model
  \<^verbatim>\<open>gpt-3.5-turbo\<close>; the agent built from it has that model, keeps it through every
  sequence of calls, and every completion call made in the sequence carries it: the trace
  is only extended, and each new event is either no completion call or a completion call
  with the model \<^verbatim>\<open>gpt-3.5-turbo\<close>.
\<close>

theorem default_model:
  assumes "BaseAgentConfig_init cl None mem spg ins outs = Inr config"
      and "BaseAgent_init dspg config w = (self0, w0)"
      and "execs gen dump truthy calls (self0, w0) = (self1, w1)"
  shows "cfg_model config = ''gpt-3.5-turbo'' \<and> model self0 = ''gpt-3.5-turbo'' \<and>
         model self1 = ''gpt-3.5-turbo'' \<and>
         (\<exists>es. trace w1 = trace w @ es \<and>
               (\<forall>ev\<in>set es. create_model ev = None \<or> create_model ev = Some ''gpt-3.5-turbo''))"
proof -
  from assms(1) have c: "cfg_model config = ''gpt-3.5-turbo''"
    by (auto simp add: BaseAgentConfig_init_def split: option.splits)
  from init_trace [OF assms(2)] c
  have i: "trace w0 = trace w" "model self0 = ''gpt-3.5-turbo''" by simp_all
  from execs_trace [OF assms(3)] i c show ?thesis by simp
qed

text \<open>
  In the example, two turns and an explicit completion call make three completion calls,
  each with the default model.
\<close>

theorem default_model_witness:
  "case BaseAgentConfig_init (Some pong_client) None None None None None of
     Inl e \<Rightarrow> False
   | Inr config \<Rightarrow>
       cfg_model config = ''gpt-3.5-turbo'' \<and>
       (case execs prompt_text dump_chat plain_truth
               [Run (Some ''ping''), Run None, Get_response (Some (Schema ''Other''))]
               (BaseAgent_init default_generator config empty_world) of
          (self1, w1) \<Rightarrow>
            model self1 = ''gpt-3.5-turbo'' \<and>
            map create_model (trace w1) =
              [None, None, Some ''gpt-3.5-turbo'', None,
               Some ''gpt-3.5-turbo'', None, Some ''gpt-3.5-turbo''])"
proof -
  obtain config :: "(string, nat, string, string, string) BaseAgentConfig" where
    h1: "BaseAgentConfig_init (Some pong_client) None None None None None = Inr config"
    by (simp add: BaseAgentConfig_init_def)
  obtain self0 w0 where h2: "BaseAgent_init default_generator config empty_world = (self0, w0)"
    by (cases "BaseAgent_init default_generator config empty_world")
  obtain self1 w1 where h3:
    "execs prompt_text dump_chat plain_truth
       [Run (Some ''ping''), Run None, Get_response (Some (Schema ''Other''))] (self0, w0)
     = (self1, w1)"
    by (cases "execs prompt_text dump_chat plain_truth
       [Run (Some ''ping''), Run None, Get_response (Some (Schema ''Other''))] (self0, w0)")
  from example_agent_init [OF h1] h2
  have s: "self0 = example_agent pong_client" "w0 = example_world" by simp_all
  have t: "map create_model (trace w1) =
              [None, None, Some ''gpt-3.5-turbo'', None,
               Some ''gpt-3.5-turbo'', None, Some ''gpt-3.5-turbo'']"
    using h3 unfolding s
    by (auto simp add: op_defs example_defs Let_def split: prod.splits)
  from default_model [OF h1 h2 h3] t h1 h2 h3
  show ?thesis by simp
qed

end
